theory Spec2Isabelle
  imports Main "HOL-Library.Sublist"
begin

section \<open>Run-time values\<close>

text \<open>
  The TypeScript types of the component (\<^verbatim>\<open>Proximity\<close>, \<^verbatim>\<open>PersonCategory\<close>) are erased
  when the program runs, and the rows read from a spreadsheet are typed \<^verbatim>\<open>any\<close>. The
  model therefore keeps the values the program holds at run time.

  A string is a list of code units; only the code units below 256 are represented.

  A number is represented by the text that JavaScript prints for it. The program does
  no arithmetic on the numbers it stores: it copies them, asks for their \<^verbatim>\<open>typeof\<close>,
  tests them for truth and prints them.
\<close>

datatype number = Number string

datatype jsval = JStr string | JNum number | JBool bool

text \<open>\<^verbatim>\<open>String(v)\<close>\<close>

fun String_js :: "jsval \<Rightarrow> string" where
  "String_js (JStr s) = s"
| "String_js (JNum (Number t)) = t"
| "String_js (JBool b) = (if b then ''true'' else ''false'')"

text \<open>The truth value of \<^verbatim>\<open>v\<close> in a condition: the empty string, zero, \<^verbatim>\<open>NaN\<close> and
  \<^verbatim>\<open>false\<close> are falsy.\<close>

fun truthy :: "jsval \<Rightarrow> bool" where
  "truthy (JStr s) = (s \<noteq> [])"
| "truthy (JNum (Number t)) = (t \<noteq> ''0'' \<and> t \<noteq> ''NaN'')"
| "truthy (JBool b) = b"

text \<open>\<^verbatim>\<open>typeof v === "number"\<close>\<close>

fun is_number :: "jsval \<Rightarrow> bool" where
  "is_number (JNum n) = True"
| "is_number v = False"

fun the_number :: "jsval \<Rightarrow> number option" where
  "the_number (JNum n) = Some n"
| "the_number v = None"

section \<open>String operations\<close>

text \<open>\<^verbatim>\<open>s.toLowerCase()\<close> on code units below 256: the letters A to Z and the
  capital letters of the Latin-1 block (all of 0xC0 to 0xDE but the multiplication
  sign 0xD7) move up by 32.\<close>

definition lower_char :: "char \<Rightarrow> char" where
  "lower_char c =
     (let n = of_char c :: nat in
      if (65 \<le> n \<and> n \<le> 90) \<or> (192 \<le> n \<and> n \<le> 222 \<and> n \<noteq> 215)
      then char_of (n + 32) else c)"

definition toLowerCase :: "string \<Rightarrow> string" where
  "toLowerCase s = map lower_char s"

text \<open>White space and line terminators below 256, as \<^verbatim>\<open>trim\<close> removes them.\<close>

definition is_space :: "char \<Rightarrow> bool" where
  "is_space c = (let n = of_char c :: nat in (9 \<le> n \<and> n \<le> 13) \<or> n = 32 \<or> n = 160)"

definition trim :: "string \<Rightarrow> string" where
  "trim s = rev (dropWhile is_space (rev (dropWhile is_space s)))"

text \<open>\<^verbatim>\<open>hay.includes(term)\<close>: some suffix of \<open>hay\<close> starts with \<open>term\<close>.\<close>

fun includes_js :: "string \<Rightarrow> string \<Rightarrow> bool" where
  "includes_js [] t = (t = [])"
| "includes_js (h # hs) t = (prefix t (h # hs) \<or> includes_js hs t)"

text \<open>\<^verbatim>\<open>xs.join(sep)\<close> on an array of strings.\<close>

fun join :: "string \<Rightarrow> string list \<Rightarrow> string" where
  "join sep [] = []"
| "join sep [s] = s"
| "join sep (s # t # ts) = s @ sep @ join sep (t # ts)"

text \<open>\<^verbatim>\<open>s.split(sep)\<close> for a separator of one code unit, the only use the program
  makes of it (\<^verbatim>\<open>split("|")\<close>). The empty string splits into one empty piece.\<close>

fun split :: "char \<Rightarrow> string \<Rightarrow> string list" where
  "split d [] = [[]]"
| "split d (c # cs) =
     (if c = d then [] # split d cs
      else (case split d cs of w # ws \<Rightarrow> (c # w) # ws | [] \<Rightarrow> [[c]]))"

text \<open>The decimal text of a length, as a template literal prints it.\<close>

fun show_nat :: "nat \<Rightarrow> string" where
  "show_nat n =
     (if n < 10 then [char_of (48 + n)]
      else show_nat (n div 10) @ [char_of (48 + n mod 10)])"

section \<open>The data model\<close>

text \<open>
  \<^verbatim>\<open>interface Person\<close> and \<^verbatim>\<open>interface Relation\<close>. An optional field is an option.
  The field \<^verbatim>\<open>proximity\<close> holds a run-time value: the import stores whatever the
  cell held. The fields \<^verbatim>\<open>id\<close> and \<^verbatim>\<open>proximity\<close> carry a suffix, as both
  interfaces have them.
\<close>

record position =
  pos_x :: number
  pos_y :: number

record person =
  id_p :: string
  firstName :: string
  lastName :: string
  company :: "string option"
  comment :: "string option"
  proximity_p :: jsval
  categories :: "string list option"
  position :: "position option"

record relation =
  id_r :: string
  sourceId :: string
  targetId :: string
  proximity_r :: jsval

definition allCategories :: "string list" where
  "allCategories =
     [''Partenaire'', ''Investisseur'', ''Autre'', ''Organisme de formation'', ''Advisor'']"

definition proximities :: "string list" where
  "proximities = [''fort'', ''moyen'', ''faible'']"

text \<open>
  \<^verbatim>\<open>proximityLabel[v]\<close> is a lookup in an object literal with the three keys fort, moyen
  and faible. The key looked up is \<open>String(v)\<close>. Another key finds nothing, unless it
  names a property that every object inherits: then the lookup gives that property (a
  function, or for \<^verbatim>\<open>__proto__\<close> the prototype object).
\<close>

datatype 'a property = Own 'a | Inherited string | Absent

definition inherited_keys :: "string list" where
  "inherited_keys =
     [''constructor'', ''__defineGetter__'', ''__defineSetter__'', ''hasOwnProperty'',
      ''__lookupGetter__'', ''__lookupSetter__'', ''isPrototypeOf'', ''propertyIsEnumerable'',
      ''toString'', ''valueOf'', ''__proto__'', ''toLocaleString'']"

definition proximityLabel :: "jsval \<Rightarrow> string property" where
  "proximityLabel v =
     (let k = String_js v in
      if k = ''fort'' then Own ''Fort''
      else if k = ''moyen'' then Own ''Moyen''
      else if k = ''faible'' then Own ''Faible''
      else if k \<in> set inherited_keys then Inherited k
      else Absent)"

text \<open>\<^verbatim>\<open>proximityEdgeStyle[v]\<close>, a lookup of the same kind.\<close>

record stroke_style =
  stroke :: string
  strokeWidth :: nat
  strokeDasharray :: "string option"

definition proximityEdgeStyle :: "jsval \<Rightarrow> stroke_style property" where
  "proximityEdgeStyle v =
     (let k = String_js v in
      if k = ''fort''
      then Own \<lparr>stroke = ''hsl(var(--primary))'', strokeWidth = 3, strokeDasharray = None\<rparr>
      else if k = ''moyen''
      then Own \<lparr>stroke = ''hsl(var(--accent))'', strokeWidth = 2, strokeDasharray = None\<rparr>
      else if k = ''faible''
      then Own \<lparr>stroke = ''hsl(var(--muted-foreground))'', strokeWidth = 1,
                 strokeDasharray = Some ''6 6''\<rparr>
      else if k \<in> set inherited_keys then Inherited k
      else Absent)"

text \<open>The text of an inherited property, as the V8 engine prints it; other engines
  set the white space of a built-in function differently.\<close>

definition native_text :: "string \<Rightarrow> string" where
  "native_text k =
     (if k = ''__proto__'' then ''[object Object]''
      else ''function '' @ (if k = ''constructor'' then ''Object'' else k)
             @ ''() { [native code] }'')"

text \<open>A looked-up value inside a template literal; \<^verbatim>\<open>undefined\<close> prints as its name.\<close>

definition template :: "string property \<Rightarrow> string" where
  "template v =
     (case v of Own s \<Rightarrow> s | Inherited k \<Rightarrow> native_text k | Absent \<Rightarrow> ''undefined'')"

text \<open>\<^verbatim>\<open>genId(prefix)\<close>. The second argument is the text that
  \<^verbatim>\<open>Math.random().toString(36).slice(2, 9)\<close> produced at that call.\<close>

definition genId :: "string \<Rightarrow> string \<Rightarrow> string" where
  "genId pre rnd = pre @ ''-'' @ rnd"

section \<open>The state of the component\<close>

text \<open>The connection a connect gesture reports; either end may be \<^verbatim>\<open>null\<close>.\<close>

record connection =
  source :: "string option"
  target :: "string option"

record toast =
  title :: string
  description :: string

text \<open>
  The two collections and the notifications shown so far. The component and the hook
  \<^verbatim>\<open>useKnowledgeMapData\<close> both hold the collections, each with state of its own.
\<close>

record store =
  persons :: "person list"
  relations :: "relation list"
  toasts :: "toast list"

record state = store +
  selectedNode :: "person option"
  selectedEdge :: "relation option"
  pendingConnect :: "connection option"
  search :: string
  proximityFilter :: string
  categoryFilter :: "string list"

abbreviation e_acute :: char where
  "e_acute \<equiv> CHR 0xE9"

definition notify :: "string \<Rightarrow> string \<Rightarrow> ('a store_scheme) \<Rightarrow> ('a store_scheme)" where
  "notify t d st = st\<lparr>toasts := toasts st @ [\<lparr>title = t, description = d\<rparr>]\<rparr>"

section \<open>The filter\<close>

text \<open>The text a search term is looked up in (\<^verbatim>\<open>hay\<close> in \<^verbatim>\<open>filteredPersons\<close>).\<close>

definition hay :: "person \<Rightarrow> string" where
  "hay p =
     toLowerCase (join '' ''
       ([firstName p, lastName p,
         (case company p of None \<Rightarrow> [] | Some c \<Rightarrow> c),
         (case comment p of None \<Rightarrow> [] | Some c \<Rightarrow> c),
         String_js (proximity_p p)]
        @ (case categories p of None \<Rightarrow> [] | Some cs \<Rightarrow> cs)))"

text \<open>\<^verbatim>\<open>p.categories?.some((c) => categoryFilter.includes(c))\<close>, falsy when the person
  has no categories field.\<close>

definition some_category :: "person \<Rightarrow> string list \<Rightarrow> bool" where
  "some_category p cf =
     (case categories p of None \<Rightarrow> False | Some cs \<Rightarrow> list_ex (\<lambda>c. c \<in> set cf) cs)"

definition keeps :: "string \<Rightarrow> string \<Rightarrow> string list \<Rightarrow> person \<Rightarrow> bool" where
  "keeps term pf cf p =
     (if pf \<noteq> ''all'' \<and> proximity_p p \<noteq> JStr pf then False
      else if cf \<noteq> [] \<and> \<not> some_category p cf then False
      else if term = [] then True
      else includes_js (hay p) term)"

definition filteredPersons ::
  "person list \<Rightarrow> string \<Rightarrow> string \<Rightarrow> string list \<Rightarrow> person list" where
  "filteredPersons ps srch pf cf =
     (let term = toLowerCase (trim srch) in filter (keeps term pf cf) ps)"

text \<open>
  The edges handed to the graph view (\<^verbatim>\<open>initialEdges\<close>): the relations whose two ends
  are among the ids of the filtered persons, each turned into an edge. The label and
  the style of an edge are what the lookups in \<^verbatim>\<open>proximityLabel\<close> and
  \<^verbatim>\<open>proximityEdgeStyle\<close> give.
\<close>

record edge =
  edge_id :: string
  edge_source :: string
  edge_target :: string
  edge_label :: "string property"
  edge_type :: string
  edge_animated :: bool
  edge_style :: "stroke_style property"

definition toEdge :: "relation \<Rightarrow> edge" where
  "toEdge r =
     \<lparr>edge_id = id_r r, edge_source = sourceId r, edge_target = targetId r,
      edge_label = proximityLabel (proximity_r r),
      edge_type = ''smoothstep'',
      edge_animated = (proximity_r r = JStr ''fort''),
      edge_style = proximityEdgeStyle (proximity_r r)\<rparr>"

definition initialEdges :: "relation list \<Rightarrow> person list \<Rightarrow> edge list" where
  "initialEdges rs fps =
     (let keepIds = set (map id_p fps)
      in map toEdge (filter (\<lambda>r. sourceId r \<in> keepIds \<and> targetId r \<in> keepIds) rs))"

text \<open>The filter controls.\<close>

definition setSearch :: "string \<Rightarrow> state \<Rightarrow> state" where
  "setSearch v st = st\<lparr>search := v\<rparr>"

definition setProximityFilter :: "string \<Rightarrow> state \<Rightarrow> state" where
  "setProximityFilter v st = st\<lparr>proximityFilter := v\<rparr>"

definition onCheckedChange :: "string \<Rightarrow> bool \<Rightarrow> state \<Rightarrow> state" where
  "onCheckedChange cat checked st =
     st\<lparr>categoryFilter :=
          (if checked then categoryFilter st @ [cat]
           else filter (\<lambda>c. c \<noteq> cat) (categoryFilter st))\<rparr>"

text \<open>What the view shows in a state.\<close>

definition shownPersons :: "state \<Rightarrow> person list" where
  "shownPersons st =
     filteredPersons (persons st) (search st) (proximityFilter st) (categoryFilter st)"

definition shownEdges :: "state \<Rightarrow> edge list" where
  "shownEdges st = initialEdges (relations st) (shownPersons st)"

section \<open>The handlers of the component\<close>

text \<open>
  A handler that awaits a call to the table service runs in parts: one part up to the
  first \<^verbatim>\<open>await\<close>, one part after each \<^verbatim>\<open>await\<close>. The first part runs inside the
  event that started the handler, and the setters it calls take effect together when
  it yields; the later parts of the handlers below call one setter each. A part is the
  change it makes to the state that is current when it runs; between two parts of a
  handler the view is drawn again and other handlers can run. What the handler read when it was started (the
  pending connection) is fixed for all its parts.

  The awaited calls sit in a \<^verbatim>\<open>try\<close> whose \<^verbatim>\<open>catch\<close> only logs, and the handlers read
  nothing from their answers: the parts do not depend on them. The part after an
  \<^verbatim>\<open>await\<close> runs once the call has settled.
\<close>

type_synonym 'a parts = "('a \<Rightarrow> 'a) list"

text \<open>The states in which the parts of a handler end, when nothing else runs between
  them, and the last of these states (the state itself for a handler without parts).\<close>

fun stages :: "'a parts \<Rightarrow> 'a \<Rightarrow> 'a list" where
  "stages [] st = []"
| "stages (f # fs) st = f st # stages fs (f st)"

fun run :: "'a parts \<Rightarrow> 'a \<Rightarrow> 'a" where
  "run [] st = st"
| "run (f # fs) st = run fs (f st)"


text \<open>\<^verbatim>\<open>setRelations((prev) => [...prev, newRel])\<close>, the part of \<^verbatim>\<open>commitConnection\<close>
  before the insert is awaited.\<close>

definition appendRelation :: "relation \<Rightarrow> state \<Rightarrow> state" where
  "appendRelation newRel st = st\<lparr>relations := relations st @ [newRel]\<rparr>"

text \<open>\<^verbatim>\<open>setPendingConnect(null)\<close> and the notification, the part of
  \<^verbatim>\<open>commitConnection\<close> after the insert has settled.\<close>

definition connectionDone :: "string \<Rightarrow> state \<Rightarrow> state" where
  "connectionDone prox st =
     notify (''Lien ajout'' @ [e_acute])
       (''Proximit'' @ [e_acute] @ '': '' @ template (proximityLabel (JStr prox)))
       (st\<lparr>pendingConnect := None\<rparr>)"

text \<open>The guard \<^verbatim>\<open>!pendingConnect?.source || !pendingConnect?.target\<close> returns when
  there is no pending connection, or when an end is \<^verbatim>\<open>null\<close> or the empty string: the
  handler then has no part.\<close>

definition commitConnection_parts :: "string \<Rightarrow> string \<Rightarrow> state \<Rightarrow> state parts" where
  "commitConnection_parts rnd prox st =
     (case pendingConnect st of
        None \<Rightarrow> []
      | Some c \<Rightarrow>
          (case (source c, target c) of
             (Some s, Some t) \<Rightarrow>
               if s = [] \<or> t = [] then []
               else
                 let newRel = \<lparr>id_r = genId ''rel'' rnd, sourceId = s, targetId = t,
                               proximity_r = JStr prox\<rparr>
                 in [appendRelation newRel, connectionDone prox]
           | _ \<Rightarrow> []))"

text \<open>\<^verbatim>\<open>commitConnection\<close> started in a state and run to its end with nothing between
  its parts.\<close>

definition commitConnection :: "string \<Rightarrow> string \<Rightarrow> state \<Rightarrow> state" where
  "commitConnection rnd prox st = run (commitConnection_parts rnd prox st) st"


text \<open>\<^verbatim>\<open>onDeletePerson\<close>: the two collections are filtered in the part before the
  delete is awaited, the dialog of the person is closed in the part after it.\<close>

definition removePerson :: "string \<Rightarrow> state \<Rightarrow> state" where
  "removePerson i st =
     st\<lparr>persons := filter (\<lambda>p. id_p p \<noteq> i) (persons st),
        relations := filter (\<lambda>r. sourceId r \<noteq> i \<and> targetId r \<noteq> i) (relations st)\<rparr>"

definition closePersonDialog :: "state \<Rightarrow> state" where
  "closePersonDialog st = st\<lparr>selectedNode := None\<rparr>"

definition onDeletePerson_parts :: "string \<Rightarrow> state parts" where
  "onDeletePerson_parts i = [removePerson i, closePersonDialog]"

definition onDeletePerson :: "string \<Rightarrow> state \<Rightarrow> state" where
  "onDeletePerson i st = run (onDeletePerson_parts i) st"

definition onEdgeClick :: "string \<Rightarrow> state \<Rightarrow> state" where
  "onEdgeClick eid st =
     (case find (\<lambda>rr. id_r rr = eid) (relations st) of
        None \<Rightarrow> st
      | Some r \<Rightarrow> st\<lparr>selectedEdge := Some r\<rparr>)"

text \<open>\<^verbatim>\<open>onChange\<close> of the selector in the dialog that edits a relation. The dialog is
  only there while an edge is selected. The handler sets the relations before it awaits
  the update and does nothing after it: it has this one part.\<close>

definition onChange :: "string \<Rightarrow> state \<Rightarrow> state" where
  "onChange p st =
     (case selectedEdge st of
        None \<Rightarrow> st
      | Some e \<Rightarrow>
          st\<lparr>relations :=
               map (\<lambda>r. if id_r r = id_r e then r\<lparr>proximity_r := JStr p\<rparr> else r)
                 (relations st)\<rparr>)"

section \<open>Export and import\<close>

text \<open>
  The spreadsheet library is not part of the program. The export is modelled up to the
  rows it hands to the library (\<^verbatim>\<open>json_to_sheet\<close>), under the names of the two sheets.
  The import is modelled from what the library gives for a file that it could read:
  for each sheet name of the file the rows of that sheet, a row giving a value to each
  column that has a cell in it (\<^verbatim>\<open>wb.Sheets[name]\<close> read by \<^verbatim>\<open>sheet_to_json\<close>). What
  the library makes of the rows when it writes them to a file and reads the file again
  is not modelled: the rows read need not be the rows written, and writing can fail.
\<close>

type_synonym row = "string \<rightharpoonup> jsval"

type_synonym workbook = "string \<rightharpoonup> row list"

definition personRow :: "person \<Rightarrow> row" where
  "personRow p =
     [''id'' \<mapsto> JStr (id_p p),
      ''firstName'' \<mapsto> JStr (firstName p),
      ''lastName'' \<mapsto> JStr (lastName p),
      ''company'' \<mapsto> JStr (case company p of None \<Rightarrow> [] | Some c \<Rightarrow> c),
      ''comment'' \<mapsto> JStr (case comment p of None \<Rightarrow> [] | Some c \<Rightarrow> c),
      ''proximity'' \<mapsto> proximity_p p,
      ''categories'' \<mapsto> JStr (join ''|'' (case categories p of None \<Rightarrow> [] | Some cs \<Rightarrow> cs)),
      ''x'' \<mapsto> (case position p of None \<Rightarrow> JStr [] | Some q \<Rightarrow> JNum (pos_x q)),
      ''y'' \<mapsto> (case position p of None \<Rightarrow> JStr [] | Some q \<Rightarrow> JNum (pos_y q))]"

definition relationRow :: "relation \<Rightarrow> row" where
  "relationRow r =
     [''id'' \<mapsto> JStr (id_r r),
      ''sourceId'' \<mapsto> JStr (sourceId r),
      ''targetId'' \<mapsto> JStr (targetId r),
      ''proximity'' \<mapsto> proximity_r r]"

definition exportExcel :: "'a store_scheme \<Rightarrow> workbook" where
  "exportExcel st =
     [''Persons'' \<mapsto> map personRow (persons st),
      ''Relations'' \<mapsto> map relationRow (relations st)]"

text \<open>\<^verbatim>\<open>v ?? d\<close> on a column of a row.\<close>

definition orElse :: "jsval option \<Rightarrow> jsval \<Rightarrow> jsval" where
  "orElse v d = (case v of None \<Rightarrow> d | Some w \<Rightarrow> w)"

text \<open>\<^verbatim>\<open>v ? String(v) : undefined\<close>\<close>

definition optString :: "jsval option \<Rightarrow> string option" where
  "optString v =
     (case v of None \<Rightarrow> None | Some w \<Rightarrow> if truthy w then Some (String_js w) else None)"

definition importedPerson :: "string \<Rightarrow> row \<Rightarrow> person" where
  "importedPerson rnd rw =
     \<lparr>id_p = String_js (orElse (rw ''id'') (JStr (genId ''p'' rnd))),
      firstName = String_js (orElse (rw ''firstName'') (JStr [])),
      lastName = String_js (orElse (rw ''lastName'') (JStr [])),
      company = optString (rw ''company''),
      comment = optString (rw ''comment''),
      proximity_p = orElse (rw ''proximity'') (JStr ''moyen''),
      categories =
        Some (case optString (rw ''categories'') of
                None \<Rightarrow> []
              | Some s \<Rightarrow> split (CHR ''|'') s),
      position =
        (case (rw ''x'', rw ''y'') of
           (Some (JNum a), Some (JNum b)) \<Rightarrow> Some \<lparr>pos_x = a, pos_y = b\<rparr>
         | _ \<Rightarrow> None)\<rparr>"

definition importedRelation :: "string \<Rightarrow> row \<Rightarrow> relation" where
  "importedRelation rnd rw =
     \<lparr>id_r = String_js (orElse (rw ''id'') (JStr (genId ''rel'' rnd))),
      sourceId = String_js (orElse (rw ''sourceId'') (JStr [])),
      targetId = String_js (orElse (rw ''targetId'') (JStr [])),
      proximity_r = orElse (rw ''proximity'') (JStr ''moyen'')\<rparr>"

text \<open>
  \<^verbatim>\<open>importExcel\<close>, from the point where the file has been read. The first argument
  gives the random text of \<^verbatim>\<open>genId\<close> for the row with that number, the rows of
  relations counted after those of persons; it is only used for a row without an id.
\<close>

definition importExcel :: "(nat \<Rightarrow> string) \<Rightarrow> workbook \<Rightarrow> 'a store_scheme \<Rightarrow> 'a store_scheme" where
  "importExcel rnd wb st =
     (case (wb ''Persons'', wb ''Relations'') of
        (Some pRows, Some rRows) \<Rightarrow>
          let importedPersons = map (\<lambda>(i, rw). importedPerson (rnd i) rw) (enumerate 0 pRows);
              importedRelations =
                map (\<lambda>(i, rw). importedRelation (rnd i) rw) (enumerate (length pRows) rRows)
          in notify (''Import r'' @ [e_acute] @ ''ussi'')
               (show_nat (length importedPersons) @ '' personnes, ''
                  @ show_nat (length importedRelations) @ '' liens'')
               (st\<lparr>persons := importedPersons, relations := importedRelations\<rparr>)
      | _ \<Rightarrow> notify ''Fichier invalide'' ''Feuilles attendues: Persons, Relations'' st)"

section \<open>The hook \<^verbatim>\<open>useKnowledgeMapData\<close>\<close>

text \<open>
  The hook asks the table service first and changes its collections after the answer:
  nothing changes in the part before the \<^verbatim>\<open>await\<close>. What the awaited call gives is an
  argument of the model: the call throws, or it returns a result whose \<^verbatim>\<open>error\<close> is set
  or not. A function of the hook gives the state after the part that follows the
  answer, for a call made and answered in the state given. That part calls several
  setters one after the other; whether the view can be drawn between two of them is
  left to the library that draws it and is not modelled.
\<close>

datatype 'a settled = Rejected | Resolved 'a

record hook = store +
  user :: "string option"
  loading :: bool


text \<open>\<^verbatim>\<open>addRelation\<close>: the answer carries \<^verbatim>\<open>error\<close> and the id of the inserted row,
  \<^verbatim>\<open>null\<close> data making \<^verbatim>\<open>insertedData.id\<close> throw.\<close>

definition addRelation ::
  "string \<Rightarrow> string \<Rightarrow> string \<Rightarrow> (string option \<times> jsval option) settled \<Rightarrow> hook \<Rightarrow> hook" where
  "addRelation src tgt prox answer st =
     (case user st of
        None \<Rightarrow> notify ''Erreur'' (''Utilisateur non connect'' @ [e_acute]) st
      | Some u \<Rightarrow>
          (case answer of
             Rejected \<Rightarrow> notify ''Erreur'' (''Erreur lors de l'' @ [CHR 0x27] @ ''ajout du lien'') st
           | Resolved (err, insertedId) \<Rightarrow>
               (case err of
                  Some e \<Rightarrow> notify ''Erreur'' (''Impossible d'' @ [CHR 0x27] @ ''ajouter le lien'') st
                | None \<Rightarrow>
                    (case insertedId of
                       None \<Rightarrow>
                         notify ''Erreur'' (''Erreur lors de l'' @ [CHR 0x27] @ ''ajout du lien'') st
                     | Some v \<Rightarrow>
                         let newRelation = \<lparr>id_r = String_js v, sourceId = src, targetId = tgt,
                                            proximity_r = JStr prox\<rparr>
                         in notify (''Lien ajout'' @ [e_acute])
                              (''Proximit'' @ [e_acute] @ '': '' @ prox)
                              (st\<lparr>relations := relations st @ [newRelation]\<rparr>)))))"

section \<open>Example stores\<close>

text \<open>Two persons and the relation between them, as entered through the forms.\<close>

definition marie :: person where
  "marie = \<lparr>id_p = ''p-1'', firstName = ''Marie'', lastName = ''Dupont'', company = Some ''Acme Corp'',
     comment = None, proximity_p = JStr ''fort'', categories = Some [], position = None\<rparr>"

definition jean :: person where
  "jean = \<lparr>id_p = ''p-2'', firstName = ''Jean'', lastName = ''Martin'', company = None,
     comment = None, proximity_p = JStr ''moyen'', categories = Some [''Partenaire'', ''Advisor''],
     position = Some \<lparr>pos_x = Number ''120.5'', pos_y = Number ''80''\<rparr>\<rparr>"

definition marie_jean :: relation where
  "marie_jean = \<lparr>id_r = ''rel-1'', sourceId = ''p-1'', targetId = ''p-2'', proximity_r = JStr ''moyen''\<rparr>"

text \<open>The component and the hook holding them, nothing selected, no filter set.\<close>

definition idle :: state where
  "idle = \<lparr>persons = [marie, jean], relations = [marie_jean], toasts = [],
     selectedNode = None, selectedEdge = None, pendingConnect = None,
     search = [], proximityFilter = ''all'', categoryFilter = []\<rparr>"

definition signed_in :: hook where
  "signed_in = \<lparr>persons = [marie, jean], relations = [marie_jean], toasts = [],
     user = Some ''u-1'', loading = False\<rparr>"

text \<open>A store whose only relation names a person that is not there, as an import of
  such a sheet leaves it.\<close>

definition dangling :: state where
  "dangling = idle\<lparr>persons := [jean],
     relations := [\<lparr>id_r = ''rel-9'', sourceId = ''ghost'', targetId = ''p-2'', proximity_r = JStr ''faible''\<rparr>]\<rparr>"

text \<open>The dialog that edits the relation between Marie and Jean is open.\<close>

definition editing :: state where
  "editing = idle\<lparr>relations := [marie_jean, \<lparr>id_r = ''rel-2'', sourceId = ''p-2'', targetId = ''p-1'',
       proximity_r = JStr ''faible''\<rparr>], selectedEdge := Some marie_jean\<rparr>"

text \<open>A connect gesture from Marie to Jean.\<close>

definition gesture :: connection where
  "gesture = \<lparr>source = Some ''p-1'', target = Some ''p-2''\<rparr>"

text \<open>A document with the sheet of persons only.\<close>

definition only_persons :: workbook where
  "only_persons = [''Persons'' \<mapsto> [personRow jean]]"

text \<open>A document in which the proximity of the one person and of the one relation is
  a word that is none of the three levels.\<close>

definition unknown_proximity :: workbook where
  "unknown_proximity =
     [''Persons'' \<mapsto> [(personRow marie)(''proximity'' \<mapsto> JStr ''proche'')],
      ''Relations'' \<mapsto> [(relationRow marie_jean)(''proximity'' \<mapsto> JStr ''proche'')]]"

text \<open>A store without persons in which the gesture from Marie to Jean is pending.\<close>

definition no_persons_pending :: state where
  "no_persons_pending = idle\<lparr>persons := [], relations := [], pendingConnect := Some gesture\<rparr>"

text \<open>The example store with the proximity filter set to fort.\<close>

definition filter_fort :: state where
  "filter_fort = setProximityFilter ''fort'' idle"

text \<open>A person entered through the form with company and comment left blank: the form
  hands them over as empty strings.\<close>

definition paul :: person where
  "paul = \<lparr>id_p = ''p-3'', firstName = ''Paul'', lastName = ''Petit'', company = Some [],
     comment = Some [], proximity_p = JStr ''faible'', categories = Some [], position = None\<rparr>"

definition with_paul :: state where
  "with_paul = idle\<lparr>persons := [paul], relations := []\<rparr>"




section \<open>Statements the program is compared with\<close>

text \<open>
  The filter as C5 words it, for comparison with \<^verbatim>\<open>filteredPersons\<close>: the search term
  is looked up as it was typed, compared without regard to case.
\<close>

definition passes_as_stated :: "string \<Rightarrow> string \<Rightarrow> string list \<Rightarrow> person \<Rightarrow> bool" where
  "passes_as_stated searchTerm pf cf p \<longleftrightarrow>
     (pf = ''all'' \<or> proximity_p p = JStr pf)
     \<and> (cf = [] \<or> some_category p cf)
     \<and> (searchTerm = [] \<or> includes_js (hay p) (toLowerCase searchTerm))"

text \<open>
  What a person is after it has been exported and imported again, as C3 is amended: an
  empty company or comment has become absent, and a person without a categories field
  has an empty list of categories.
\<close>

definition blank_to_absent :: "string option \<Rightarrow> string option" where
  "blank_to_absent v = (if v = Some [] then None else v)"

definition reimported :: "person \<Rightarrow> person" where
  "reimported p =
     p\<lparr>company := blank_to_absent (company p),
       comment := blank_to_absent (comment p),
       categories := Some (case categories p of None \<Rightarrow> [] | Some cs \<Rightarrow> cs)\<rparr>"

section \<open>Properties\<close>

subsection \<open>Helper facts\<close>

lemma notify_fields:
  "persons (notify t d st) = persons st"
  "relations (notify t d st) = relations st"
  "toasts (notify t d st) = toasts st @ [\<lparr>title = t, description = d\<rparr>]"
  by (simp_all add: notify_def)

lemma map_update_one:
  assumes "distinct (map f xs)" and "k < length xs" and "f (xs ! k) = a"
  shows "map (\<lambda>r. if f r = a then g r else r) xs = xs[k := g (xs ! k)]"
proof (rule nth_equalityI)
  show "length (map (\<lambda>r. if f r = a then g r else r) xs) = length (xs[k := g (xs ! k)])"
    by simp
next
  fix j assume "j < length (map (\<lambda>r. if f r = a then g r else r) xs)"
  then have j: "j < length xs" by simp
  show "map (\<lambda>r. if f r = a then g r else r) xs ! j = xs[k := g (xs ! k)] ! j"
  proof (cases "j = k")
    case True
    with assms show ?thesis by simp
  next
    case False
    have "map f xs ! j \<noteq> map f xs ! k"
      using assms(1,2) j False by (simp add: nth_eq_iff_index_eq del: nth_map)
    then have "f (xs ! j) \<noteq> f (xs ! k)"
      using assms(2) j by simp
    with assms(3) j False show ?thesis by simp
  qed
qed

subsection \<open>Deleting a person\<close>

lemma removePerson_fields:
  "persons (removePerson i u) = filter (\<lambda>p. id_p p \<noteq> i) (persons u)"
  "relations (removePerson i u) = filter (\<lambda>r. sourceId r \<noteq> i \<and> targetId r \<noteq> i) (relations u)"
  "toasts (removePerson i u) = toasts u"
  by (simp_all add: removePerson_def)

lemma closePersonDialog_fields:
  "persons (closePersonDialog u) = persons u"
  "relations (closePersonDialog u) = relations u"
  "toasts (closePersonDialog u) = toasts u"
  by (simp_all add: closePersonDialog_def)

lemma onDeletePerson_stages:
  "stages (onDeletePerson_parts i) st = [removePerson i st, onDeletePerson i st]"
  "onDeletePerson i st = closePersonDialog (removePerson i st)"
  by (simp_all add: onDeletePerson_parts_def onDeletePerson_def)




text \<open>
  C9 (amended). For an id that no person of the store has, \<^verbatim>\<open>onDeletePerson\<close> leaves the
  persons unchanged and notifies nothing. Of the relations it keeps exactly those that
  name the id neither as source nor as target: the relations that name the absent id
  are removed. So the relations are unchanged exactly when no relation names the id,
  which is so whenever both ends of every relation are persons of the store.
\<close>

theorem delete_absent:
  assumes "i \<notin> set (map id_p (persons st))"
  shows "persons (onDeletePerson i st) = persons st
       \<and> toasts (onDeletePerson i st) = toasts st
       \<and> relations (onDeletePerson i st)
           = filter (\<lambda>r. sourceId r \<noteq> i \<and> targetId r \<noteq> i) (relations st)
       \<and> (relations (onDeletePerson i st) = relations st
            \<longleftrightarrow> (\<forall>r \<in> set (relations st). sourceId r \<noteq> i \<and> targetId r \<noteq> i))
       \<and> ((\<forall>r \<in> set (relations st).
              sourceId r \<in> set (map id_p (persons st)) \<and> targetId r \<in> set (map id_p (persons st)))
            \<longrightarrow> relations (onDeletePerson i st) = relations st)"
proof -
  have "\<forall>p \<in> set (persons st). id_p p \<noteq> i"
    using assms by auto
  then have p: "persons (onDeletePerson i st) = persons st"
    by (simp add: onDeletePerson_stages(2) removePerson_fields closePersonDialog_fields)
  have t: "toasts (onDeletePerson i st) = toasts st"
    by (simp add: onDeletePerson_stages(2) removePerson_fields closePersonDialog_fields)
  have f: "relations (onDeletePerson i st)
           = filter (\<lambda>r. sourceId r \<noteq> i \<and> targetId r \<noteq> i) (relations st)"
    by (simp add: onDeletePerson_stages(2) removePerson_fields closePersonDialog_fields)
  have r: "relations (onDeletePerson i st) = relations st
            \<longleftrightarrow> (\<forall>r \<in> set (relations st). sourceId r \<noteq> i \<and> targetId r \<noteq> i)"
    unfolding f by (simp add: filter_id_conv)
  have "(\<forall>r \<in> set (relations st).
              sourceId r \<in> set (map id_p (persons st)) \<and> targetId r \<in> set (map id_p (persons st)))
            \<longrightarrow> (\<forall>r \<in> set (relations st). sourceId r \<noteq> i \<and> targetId r \<noteq> i)"
    using assms by auto
  with p t f r show ?thesis by blast
qed

text \<open>Deleting an id that nobody has from the example store changes nothing; in the
  store with the dangling relation, deleting the absent id that it names removes
  it.\<close>

theorem delete_absent_witness:
  "map id_p (persons idle) = [''p-1'', ''p-2'']
   \<and> map sourceId (relations idle) = [''p-1'']
   \<and> map targetId (relations idle) = [''p-2'']
   \<and> persons (onDeletePerson ''p-7'' idle) = persons idle
   \<and> relations (onDeletePerson ''p-7'' idle) = relations idle
   \<and> toasts (onDeletePerson ''p-7'' idle) = toasts idle
   \<and> map id_p (persons dangling) = [''p-2'']
   \<and> map sourceId (relations dangling) = [''ghost'']
   \<and> persons (onDeletePerson ''ghost'' dangling) = persons dangling
   \<and> relations (onDeletePerson ''ghost'' dangling) = []"
proof -
  have m: "map id_p (persons idle) = [''p-1'', ''p-2'']"
    "map sourceId (relations idle) = [''p-1'']" "map targetId (relations idle) = [''p-2'']"
    by (simp_all add: idle_def marie_def jean_def marie_jean_def)
  have d: "map id_p (persons dangling) = [''p-2'']" "map sourceId (relations dangling) = [''ghost'']"
    "filter (\<lambda>r. sourceId r \<noteq> ''ghost'' \<and> targetId r \<noteq> ''ghost'') (relations dangling) = []"
    by (simp_all add: dangling_def idle_def jean_def)
  have h: "''p-7'' \<notin> set (map id_p (persons idle))"
    by (simp add: m)
  have g: "''ghost'' \<notin> set (map id_p (persons dangling))"
    by (simp add: d)
  have k: "\<forall>r \<in> set (relations idle).
              sourceId r \<in> set (map id_p (persons idle)) \<and> targetId r \<in> set (map id_p (persons idle))"
    by (simp add: idle_def marie_def jean_def marie_jean_def)
  from delete_absent [OF h] k
  have a: "persons (onDeletePerson ''p-7'' idle) = persons idle"
    and b: "relations (onDeletePerson ''p-7'' idle) = relations idle"
    and c: "toasts (onDeletePerson ''p-7'' idle) = toasts idle"
    by blast+
  from delete_absent [OF g] d(3)
  have "persons (onDeletePerson ''ghost'' dangling) = persons dangling"
    and "relations (onDeletePerson ''ghost'' dangling) = []"
    by simp_all
  with m d a b c show ?thesis by simp
qed

text \<open>C9 as stated fails on a store with a relation whose source is no person: deleting
  that absent id removes the relation.\<close>

theorem delete_absent_counterexample:
  "''ghost'' \<notin> set (map id_p (persons dangling))
   \<and> relations (onDeletePerson ''ghost'' dangling) \<noteq> relations dangling"
  by (simp add: dangling_def idle_def jean_def onDeletePerson_stages(2) removePerson_fields
      closePersonDialog_fields)


subsection \<open>Changing the proximity of a relation\<close>

text \<open>
  C10. With the relation dialog open on a relation whose id is in the store, choosing a
  proximity keeps the number of relations and the persons; at every position the id,
  source and target stay, a relation with another id stays as it is, and a relation
  with the selected id differs from the old one in its proximity only. When the ids of
  the relations are distinct, the new list is the old one updated at one position.
\<close>

theorem onChange_frame:
  assumes "selectedEdge st = Some e" and "id_r e \<in> set (map id_r (relations st))"
  shows "length (relations (onChange p st)) = length (relations st)
       \<and> persons (onChange p st) = persons st
       \<and> (\<forall>k < length (relations st).
             id_r (relations (onChange p st) ! k) = id_r (relations st ! k)
           \<and> sourceId (relations (onChange p st) ! k) = sourceId (relations st ! k)
           \<and> targetId (relations (onChange p st) ! k) = targetId (relations st ! k)
           \<and> (id_r (relations st ! k) = id_r e \<longrightarrow>
                relations (onChange p st) ! k = (relations st ! k)\<lparr>proximity_r := JStr p\<rparr>)
           \<and> (id_r (relations st ! k) \<noteq> id_r e \<longrightarrow>
                relations (onChange p st) ! k = relations st ! k))
       \<and> (distinct (map id_r (relations st)) \<longrightarrow>
            (\<exists>k < length (relations st). id_r (relations st ! k) = id_r e
               \<and> relations (onChange p st)
                   = (relations st)[k := (relations st ! k)\<lparr>proximity_r := JStr p\<rparr>]))"
proof -
  let ?f = "\<lambda>r. if id_r r = id_r e then r\<lparr>proximity_r := JStr p\<rparr> else r"
  have rel: "relations (onChange p st) = map ?f (relations st)"
    using assms(1) by (simp add: onChange_def)
  have per: "persons (onChange p st) = persons st"
    using assms(1) by (simp add: onChange_def)
  have len: "length (relations (onChange p st)) = length (relations st)"
    by (simp add: rel)
  have each: "\<forall>k < length (relations st).
             id_r (relations (onChange p st) ! k) = id_r (relations st ! k)
           \<and> sourceId (relations (onChange p st) ! k) = sourceId (relations st ! k)
           \<and> targetId (relations (onChange p st) ! k) = targetId (relations st ! k)
           \<and> (id_r (relations st ! k) = id_r e \<longrightarrow>
                relations (onChange p st) ! k = (relations st ! k)\<lparr>proximity_r := JStr p\<rparr>)
           \<and> (id_r (relations st ! k) \<noteq> id_r e \<longrightarrow>
                relations (onChange p st) ! k = relations st ! k)"
    by (simp add: rel)
  have one: "distinct (map id_r (relations st)) \<longrightarrow>
            (\<exists>k < length (relations st). id_r (relations st ! k) = id_r e
               \<and> relations (onChange p st)
                   = (relations st)[k := (relations st ! k)\<lparr>proximity_r := JStr p\<rparr>])"
  proof
    assume d: "distinct (map id_r (relations st))"
    from assms(2) obtain k where k: "k < length (relations st)" "id_r (relations st ! k) = id_r e"
      by (auto simp: in_set_conv_nth)
    from map_update_one [OF d k, of "\<lambda>r. r\<lparr>proximity_r := JStr p\<rparr>"] k rel
    show "\<exists>k < length (relations st). id_r (relations st ! k) = id_r e
               \<and> relations (onChange p st)
                   = (relations st)[k := (relations st ! k)\<lparr>proximity_r := JStr p\<rparr>]"
      by auto
  qed
  from len per each one show ?thesis by blast
qed

theorem onChange_frame_witness:
  "selectedEdge editing = Some marie_jean
   \<and> id_r marie_jean \<in> set (map id_r (relations editing))
   \<and> distinct (map id_r (relations editing))
   \<and> (\<exists>k < length (relations editing). id_r (relations editing ! k) = id_r marie_jean
        \<and> relations (onChange ''fort'' editing)
            = (relations editing)[k := (relations editing ! k)\<lparr>proximity_r := JStr ''fort''\<rparr>])
   \<and> persons (onChange ''fort'' editing) = persons editing"
proof -
  have a: "selectedEdge editing = Some marie_jean"
    by (simp add: editing_def)
  have b: "id_r marie_jean \<in> set (map id_r (relations editing))"
    by (simp add: editing_def)
  have c: "distinct (map id_r (relations editing))"
    by (simp add: editing_def marie_jean_def)
  from onChange_frame [OF a b, of "''fort''"] a b c show ?thesis by blast
qed

subsection \<open>The pending connection\<close>









subsection \<open>Importing a document without one of its sheets\<close>

text \<open>
  C4. When the document has no sheet named Persons or no sheet named Relations, the
  import changes nothing but the notifications, to which it adds the one that tells
  the file is invalid and names the two sheets expected: persons and relations are
  what they were.
\<close>

theorem import_missing_sheet:
  assumes "wb ''Persons'' = None \<or> wb ''Relations'' = None"
  shows "importExcel rnd wb st
           = st\<lparr>toasts := toasts st @ [\<lparr>title = ''Fichier invalide'',
                    description = ''Feuilles attendues: Persons, Relations''\<rparr>]\<rparr>
       \<and> persons (importExcel rnd wb st) = persons st
       \<and> relations (importExcel rnd wb st) = relations st"
  using assms
  by (auto simp: importExcel_def notify_def split: option.splits)

text \<open>Importing a document that has only the sheet of persons into the example store.\<close>

theorem import_missing_sheet_witness:
  "(only_persons ''Persons'' = None \<or> only_persons ''Relations'' = None)
   \<and> persons (importExcel (\<lambda>i. ''k3x9q2a'') only_persons idle) = [marie, jean]
   \<and> relations (importExcel (\<lambda>i. ''k3x9q2a'') only_persons idle) = [marie_jean]
   \<and> toasts (importExcel (\<lambda>i. ''k3x9q2a'') only_persons idle)
       = [\<lparr>title = ''Fichier invalide'', description = ''Feuilles attendues: Persons, Relations''\<rparr>]"
proof -
  have a: "only_persons ''Persons'' = None \<or> only_persons ''Relations'' = None"
    by (simp add: only_persons_def)
  have b: "persons idle = [marie, jean]" "relations idle = [marie_jean]" "toasts idle = []"
    by (simp_all add: idle_def)
  from import_missing_sheet [OF a, of "\<lambda>i. ''k3x9q2a''" idle] a b
  show ?thesis by simp
qed

subsection \<open>The proximity of imported rows\<close>

text \<open>A row without a proximity cell gets the level moyen; a row with one keeps the
  value of the cell, whatever it is.\<close>

lemma import_missing_proximity:
  "rw ''proximity'' = None \<Longrightarrow> proximity_p (importedPerson r rw) = JStr ''moyen''"
  "rw ''proximity'' = None \<Longrightarrow> proximity_r (importedRelation r rw) = JStr ''moyen''"
  by (simp_all add: importedPerson_def importedRelation_def orElse_def)

lemma import_present_proximity:
  "rw ''proximity'' = Some v \<Longrightarrow> proximity_p (importedPerson r rw) = v"
  "rw ''proximity'' = Some v \<Longrightarrow> proximity_r (importedRelation r rw) = v"
  by (simp_all add: importedPerson_def importedRelation_def orElse_def)

text \<open>
  C7. The import does not bring a proximity that is none of fort, moyen and faible back
  to moyen. Importing the document whose person and relation carry the proximity
  \<^verbatim>\<open>proche\<close> stores that word as the proximity of both.
\<close>

theorem import_unknown_proximity:
  "''proche'' \<notin> set proximities
   \<and> map proximity_p (persons (importExcel rnd unknown_proximity idle)) = [JStr ''proche'']
   \<and> map proximity_r (relations (importExcel rnd unknown_proximity idle)) = [JStr ''proche'']"
  by (simp add: proximities_def importExcel_def unknown_proximity_def notify_def
      import_present_proximity)

subsection \<open>Adding a relation\<close>

text \<open>
  C2 (amended). Neither way of adding a relation looks its two ends up among the
  persons of the store. \<^verbatim>\<open>commitConnection\<close> appends the relation whenever the pending
  connection has a source and a target that are present and not empty; without a
  pending connection, or with an end that is absent or empty, it returns the state as
  it is, notifying nothing. The hook's \<^verbatim>\<open>addRelation\<close> appends the relation when a
  user is signed in and the table service returns the inserted row without error; when
  no user is signed in, or the call throws, or it returns an error or no row, the
  collections stay as they are and a notification titled Erreur is added.
\<close>

theorem addRelation_unchecked:
  "(pendingConnect st = Some c \<and> source c = Some s \<and> target c = Some t \<and> s \<noteq> [] \<and> t \<noteq> []
      \<longrightarrow> relations (commitConnection rnd p st)
            = relations st @ [\<lparr>id_r = genId ''rel'' rnd, sourceId = s, targetId = t,
                                proximity_r = JStr p\<rparr>])
   \<and> (pendingConnect st = None
        \<or> (\<exists>c. pendingConnect st = Some c
              \<and> (source c = None \<or> source c = Some [] \<or> target c = None \<or> target c = Some []))
      \<longrightarrow> commitConnection rnd p st = st)
   \<and> (user h \<noteq> None
      \<longrightarrow> relations (addRelation s t p (Resolved (None, Some v)) h)
            = relations h @ [\<lparr>id_r = String_js v, sourceId = s, targetId = t,
                               proximity_r = JStr p\<rparr>])
   \<and> (user h = None \<or> a = Rejected \<or> (\<exists>e d. a = Resolved (Some e, d)) \<or> a = Resolved (None, None)
      \<longrightarrow> relations (addRelation s t p a h) = relations h
          \<and> persons (addRelation s t p a h) = persons h
          \<and> (\<exists>d. toasts (addRelation s t p a h) = toasts h @ [\<lparr>title = ''Erreur'', description = d\<rparr>]))"
proof -
  have one: "pendingConnect st = Some c \<and> source c = Some s \<and> target c = Some t \<and> s \<noteq> [] \<and> t \<noteq> []
      \<longrightarrow> relations (commitConnection rnd p st)
            = relations st @ [\<lparr>id_r = genId ''rel'' rnd, sourceId = s, targetId = t,
                                proximity_r = JStr p\<rparr>]"
    by (simp add: commitConnection_def commitConnection_parts_def appendRelation_def
        connectionDone_def notify_def)
  have two: "pendingConnect st = None
        \<or> (\<exists>c. pendingConnect st = Some c
              \<and> (source c = None \<or> source c = Some [] \<or> target c = None \<or> target c = Some []))
      \<longrightarrow> commitConnection rnd p st = st"
    by (auto simp: commitConnection_def commitConnection_parts_def split: option.splits)
  have three: "user h \<noteq> None
      \<longrightarrow> relations (addRelation s t p (Resolved (None, Some v)) h)
            = relations h @ [\<lparr>id_r = String_js v, sourceId = s, targetId = t,
                               proximity_r = JStr p\<rparr>]"
    by (auto simp: addRelation_def notify_def)
  have four: "user h = None \<or> a = Rejected \<or> (\<exists>e d. a = Resolved (Some e, d)) \<or> a = Resolved (None, None)
      \<longrightarrow> relations (addRelation s t p a h) = relations h
          \<and> persons (addRelation s t p a h) = persons h
          \<and> (\<exists>d. toasts (addRelation s t p a h) = toasts h @ [\<lparr>title = ''Erreur'', description = d\<rparr>])"
    by (auto simp: addRelation_def notify_def split: option.splits)
  from one two three four show ?thesis by blast
qed

theorem addRelation_unchecked_witness:
  "pendingConnect no_persons_pending = Some gesture
   \<and> source gesture = Some ''p-1'' \<and> target gesture = Some ''p-2'' \<and> ''p-1'' \<noteq> [] \<and> ''p-2'' \<noteq> []
   \<and> persons no_persons_pending = []
   \<and> relations (commitConnection ''k3x9q2a'' ''moyen'' no_persons_pending)
       = relations no_persons_pending
           @ [\<lparr>id_r = genId ''rel'' ''k3x9q2a'', sourceId = ''p-1'', targetId = ''p-2'',
                proximity_r = JStr ''moyen''\<rparr>]
   \<and> pendingConnect idle = None
   \<and> commitConnection ''k3x9q2a'' ''moyen'' idle = idle
   \<and> user signed_in \<noteq> None
   \<and> relations (addRelation ''p-1'' ''p-7'' ''fort'' (Resolved (None, Some (JStr ''rel-2''))) signed_in)
       = relations signed_in
           @ [\<lparr>id_r = String_js (JStr ''rel-2''), sourceId = ''p-1'', targetId = ''p-7'',
                proximity_r = JStr ''fort''\<rparr>]
   \<and> relations (addRelation ''p-1'' ''p-7'' ''fort'' (Resolved (Some ''violates foreign key'', None)) signed_in)
       = relations signed_in"
proof -
  have a: "pendingConnect no_persons_pending = Some gesture" "persons no_persons_pending = []"
    by (simp_all add: no_persons_pending_def)
  have b: "source gesture = Some ''p-1''" "target gesture = Some ''p-2''"
    by (simp_all add: gesture_def)
  have c: "pendingConnect idle = None" "user signed_in \<noteq> None"
    by (simp_all add: idle_def signed_in_def)
  from addRelation_unchecked [of no_persons_pending gesture "''p-1''" "''p-2''" "''k3x9q2a''" "''moyen''"] a b
  have d: "relations (commitConnection ''k3x9q2a'' ''moyen'' no_persons_pending)
       = relations no_persons_pending
           @ [\<lparr>id_r = genId ''rel'' ''k3x9q2a'', sourceId = ''p-1'', targetId = ''p-2'',
                proximity_r = JStr ''moyen''\<rparr>]"
    by simp
  from addRelation_unchecked [of idle _ _ _ "''k3x9q2a''" "''moyen''"] c
  have e: "commitConnection ''k3x9q2a'' ''moyen'' idle = idle"
    by simp
  from addRelation_unchecked [of _ _ "''p-1''" "''p-7''" _ "''fort''" signed_in "JStr ''rel-2''"] c
  have f: "relations (addRelation ''p-1'' ''p-7'' ''fort'' (Resolved (None, Some (JStr ''rel-2''))) signed_in)
       = relations signed_in
           @ [\<lparr>id_r = String_js (JStr ''rel-2''), sourceId = ''p-1'', targetId = ''p-7'',
                proximity_r = JStr ''fort''\<rparr>]"
    by simp
  from addRelation_unchecked [of _ _ "''p-1''" "''p-7''" _ "''fort''" signed_in _
      "Resolved (Some ''violates foreign key'', None)"]
  have g: "relations (addRelation ''p-1'' ''p-7'' ''fort'' (Resolved (Some ''violates foreign key'', None)) signed_in)
       = relations signed_in"
    by simp
  from a b c d e f g show ?thesis by simp
qed

text \<open>C2 as stated fails: in a store without persons, committing the pending
  connection from \<^verbatim>\<open>p-1\<close> to \<^verbatim>\<open>p-2\<close> appends the relation and reports success.\<close>

theorem addRelation_unknown_counterexample:
  "''p-1'' \<notin> set (map id_p (persons no_persons_pending))
   \<and> relations (commitConnection ''k3x9q2a'' ''moyen'' no_persons_pending)
       = relations no_persons_pending
           @ [\<lparr>id_r = ''rel-k3x9q2a'', sourceId = ''p-1'', targetId = ''p-2'',
                proximity_r = JStr ''moyen''\<rparr>]
   \<and> relations (commitConnection ''k3x9q2a'' ''moyen'' no_persons_pending)
       \<noteq> relations no_persons_pending
   \<and> map title (toasts (commitConnection ''k3x9q2a'' ''moyen'' no_persons_pending))
       = [''Lien ajout'' @ [e_acute]]"
  by (simp add: no_persons_pending_def idle_def gesture_def commitConnection_def
      commitConnection_parts_def appendRelation_def connectionDone_def notify_def genId_def)

subsection \<open>The filter\<close>

lemma includes_js_sublist: "includes_js h t = sublist t h"
  by (induction h) (simp_all add: sublist_Cons_right)

lemma includes_js_iff: "includes_js h t \<longleftrightarrow> (\<exists>a b. h = a @ t @ b)"
  by (simp add: includes_js_sublist sublist_def)

lemma some_category_iff:
  "some_category p cf \<longleftrightarrow> (\<exists>cs. categories p = Some cs \<and> set cs \<inter> set cf \<noteq> {})"
  by (auto simp: some_category_def list_ex_iff split: option.splits)

lemma keeps_iff:
  "keeps term pf cf p \<longleftrightarrow>
     (pf = ''all'' \<or> proximity_p p = JStr pf)
     \<and> (cf = [] \<or> some_category p cf)
     \<and> (term = [] \<or> includes_js (hay p) term)"
  by (auto simp: keeps_def)

lemma hay_company:
  assumes "company p = Some c"
  shows "\<exists>a b. hay p = a @ toLowerCase c @ b"
proof -
  obtain rest where "(case comment p of None \<Rightarrow> [] | Some m \<Rightarrow> m) # String_js (proximity_p p)
        # (case categories p of None \<Rightarrow> [] | Some cs \<Rightarrow> cs) = rest"
    by simp
  then have "hay p = toLowerCase (firstName p @ '' '' @ lastName p @ '' '') @ toLowerCase c
                 @ toLowerCase ('' '' @ join '' '' rest)"
    using assms by (auto simp: hay_def toLowerCase_def)
  then show ?thesis by blast
qed

text \<open>
  C5 (amended). A person is in the filtered list exactly when it is in the list of
  persons, the proximity filter is \<^verbatim>\<open>all\<close> or is the person's proximity, the category
  filter is empty or shares a category with the person, and the search term, trimmed
  and put in lower case, is empty or occurs in the person's text: first name, last
  name, company, comment, proximity and categories joined by single spaces, in lower
  case. In particular the term \<^verbatim>\<open>acme\<close> finds a person whose company is Acme Corp.
\<close>

theorem filteredPersons_iff:
  "(p \<in> set (filteredPersons ps srch pf cf)
      \<longleftrightarrow> p \<in> set ps
        \<and> (pf = ''all'' \<or> proximity_p p = JStr pf)
        \<and> (cf = [] \<or> (\<exists>cs. categories p = Some cs \<and> set cs \<inter> set cf \<noteq> {}))
        \<and> (toLowerCase (trim srch) = []
            \<or> (\<exists>a b. hay p = a @ toLowerCase (trim srch) @ b)))
   \<and> (company p = Some ''Acme Corp'' \<longrightarrow> filteredPersons [p] ''acme'' ''all'' [] = [p])"
proof -
  have main: "p \<in> set (filteredPersons ps srch pf cf)
      \<longleftrightarrow> p \<in> set ps
        \<and> (pf = ''all'' \<or> proximity_p p = JStr pf)
        \<and> (cf = [] \<or> (\<exists>cs. categories p = Some cs \<and> set cs \<inter> set cf \<noteq> {}))
        \<and> (toLowerCase (trim srch) = []
            \<or> (\<exists>a b. hay p = a @ toLowerCase (trim srch) @ b))"
    by (simp add: filteredPersons_def keeps_iff includes_js_iff some_category_iff)
  have lc: "toLowerCase (trim ''acme'') = ''acme''" "toLowerCase ''Acme Corp'' = ''acme'' @ '' corp''"
    by code_simp+
  have acme: "company p = Some ''Acme Corp'' \<longrightarrow> filteredPersons [p] ''acme'' ''all'' [] = [p]"
  proof
    assume c: "company p = Some ''Acme Corp''"
    from hay_company [OF c] obtain a b where "hay p = a @ ''acme'' @ ('' corp'' @ b)"
      unfolding lc by auto
    then have "includes_js (hay p) ''acme''"
      unfolding includes_js_iff by blast
    then show "filteredPersons [p] ''acme'' ''all'' [] = [p]"
      by (simp add: filteredPersons_def keeps_iff lc del: includes_js.simps)
  qed
  from main acme show ?thesis by blast
qed

text \<open>Marie is found by \<^verbatim>\<open>acme\<close>; Jean is found by a padded, upper-case
  \<^verbatim>\<open>MARTIN\<close> together with his proximity and one of his categories.\<close>

theorem filteredPersons_iff_witness:
  "company marie = Some ''Acme Corp''
   \<and> filteredPersons [marie] ''acme'' ''all'' [] = [marie]
   \<and> (jean \<in> set (filteredPersons [marie, jean] '' MARTIN '' ''moyen'' [''Advisor''])
        \<longleftrightarrow> jean \<in> set [marie, jean]
          \<and> (''moyen'' = ''all'' \<or> proximity_p jean = JStr ''moyen'')
          \<and> ([''Advisor''] = [] \<or> (\<exists>cs. categories jean = Some cs \<and> set cs \<inter> set [''Advisor''] \<noteq> {}))
          \<and> (toLowerCase (trim '' MARTIN '') = []
              \<or> (\<exists>a b. hay jean = a @ toLowerCase (trim '' MARTIN '') @ b)))
   \<and> filteredPersons [marie, jean] '' MARTIN '' ''moyen'' [''Advisor''] = [jean]"
proof -
  have c: "company marie = Some ''Acme Corp''"
    by (simp add: marie_def)
  have j: "filteredPersons [marie, jean] '' MARTIN '' ''moyen'' [''Advisor''] = [jean]"
    by code_simp
  from filteredPersons_iff [of marie] c
  have a: "filteredPersons [marie] ''acme'' ''all'' [] = [marie]"
    by blast
  from filteredPersons_iff [of jean "[marie, jean]" "'' MARTIN ''" "''moyen''" "[''Advisor'']"] c j a
  show ?thesis by blast
qed

text \<open>C5 as stated fails for a search term with white space around it: after
  \<^verbatim>\<open>fort\<close> and a space Marie is still listed, though her text ends in \<^verbatim>\<open>fort\<close> and
  does not contain the term as typed.\<close>

theorem filteredPersons_counterexample:
  "marie \<in> set (filteredPersons [marie] ''fort '' ''all'' [])
   \<and> \<not> passes_as_stated ''fort '' ''all'' [] marie"
  by code_simp

lemma toEdge_fields:
  "edge_id (toEdge r) = id_r r"
  "edge_source (toEdge r) = sourceId r"
  "edge_target (toEdge r) = targetId r"
  "edge_label (toEdge r) = proximityLabel (proximity_r r)"
  "edge_animated (toEdge r) \<longleftrightarrow> proximity_r r = JStr ''fort''"
  "edge_type (toEdge r) = ''smoothstep''"
  "edge_style (toEdge r) = proximityEdgeStyle (proximity_r r)"
  by (simp_all add: toEdge_def)

lemma in_ids_iff: "i \<in> set (map id_p fps) \<longleftrightarrow> (\<exists>p \<in> set fps. id_p p = i)"
  by (auto simp: image_iff)

lemma initialEdges_map:
  "initialEdges rs fps
     = map toEdge (filter (\<lambda>r. sourceId r \<in> set (map id_p fps) \<and> targetId r \<in> set (map id_p fps)) rs)"
  by (simp add: initialEdges_def)

text \<open>
  C6. The edges handed to the view are, in the order of the store, the relations whose
  source and target are both ids of persons that passed the filter: their ids, their
  sources and their targets are those of these relations. The edge of a relation of
  the store is among them exactly when both its ends are ids of such persons, and
  every edge among them is the edge of such a relation. An edge carries the id, the
  source and the target of its relation, the label and the style looked up for its
  proximity, and is animated exactly when the proximity is fort. Setting the search term, the proximity
  filter or a category changes neither the relations nor the persons of the store.
\<close>

theorem visible_relations:
  "map edge_id (initialEdges rs fps)
     = map id_r (filter (\<lambda>r. sourceId r \<in> set (map id_p fps) \<and> targetId r \<in> set (map id_p fps)) rs)
   \<and> map edge_source (initialEdges rs fps)
     = map sourceId (filter (\<lambda>r. sourceId r \<in> set (map id_p fps) \<and> targetId r \<in> set (map id_p fps)) rs)
   \<and> map edge_target (initialEdges rs fps)
     = map targetId (filter (\<lambda>r. sourceId r \<in> set (map id_p fps) \<and> targetId r \<in> set (map id_p fps)) rs)
   \<and> (r \<in> set rs \<longrightarrow>
        (toEdge r \<in> set (initialEdges rs fps)
           \<longleftrightarrow> (\<exists>p \<in> set fps. id_p p = sourceId r) \<and> (\<exists>q \<in> set fps. id_p q = targetId r)))
   \<and> (e \<in> set (initialEdges rs fps) \<longrightarrow>
        (\<exists>r' \<in> set rs. e = toEdge r'
           \<and> (\<exists>p \<in> set fps. id_p p = sourceId r') \<and> (\<exists>q \<in> set fps. id_p q = targetId r')))
   \<and> edge_id (toEdge r) = id_r r
   \<and> edge_source (toEdge r) = sourceId r
   \<and> edge_target (toEdge r) = targetId r
   \<and> edge_label (toEdge r) = proximityLabel (proximity_r r)
   \<and> (edge_animated (toEdge r) \<longleftrightarrow> proximity_r r = JStr ''fort'')
   \<and> edge_type (toEdge r) = ''smoothstep''
   \<and> edge_style (toEdge r) = proximityEdgeStyle (proximity_r r)
   \<and> shownEdges st = initialEdges (relations st) (shownPersons st)
   \<and> shownPersons st
       = filteredPersons (persons st) (search st) (proximityFilter st) (categoryFilter st)
   \<and> relations (setSearch v st) = relations st \<and> persons (setSearch v st) = persons st
   \<and> relations (setProximityFilter v st) = relations st
   \<and> persons (setProximityFilter v st) = persons st
   \<and> relations (onCheckedChange v b st) = relations st
   \<and> persons (onCheckedChange v b st) = persons st"
proof -
  let ?vis = "\<lambda>r. sourceId r \<in> set (map id_p fps) \<and> targetId r \<in> set (map id_p fps)"
  have ids: "map edge_id (initialEdges rs fps) = map id_r (filter ?vis rs)"
    "map edge_source (initialEdges rs fps) = map sourceId (filter ?vis rs)"
    "map edge_target (initialEdges rs fps) = map targetId (filter ?vis rs)"
    by (simp_all add: initialEdges_map toEdge_fields comp_def)
  have shown: "r \<in> set rs \<longrightarrow>
        (toEdge r \<in> set (initialEdges rs fps)
           \<longleftrightarrow> (\<exists>p \<in> set fps. id_p p = sourceId r) \<and> (\<exists>q \<in> set fps. id_p q = targetId r))"
  proof
    assume r: "r \<in> set rs"
    show "toEdge r \<in> set (initialEdges rs fps)
           \<longleftrightarrow> (\<exists>p \<in> set fps. id_p p = sourceId r) \<and> (\<exists>q \<in> set fps. id_p q = targetId r)"
    proof
      assume "toEdge r \<in> set (initialEdges rs fps)"
      then obtain r' where "r' \<in> set rs" and v: "?vis r'" and eq: "toEdge r' = toEdge r"
        by (auto simp: initialEdges_map)
      from eq have "sourceId r' = sourceId r" "targetId r' = targetId r"
        by (metis toEdge_fields(2), metis toEdge_fields(3))
      with v show "(\<exists>p \<in> set fps. id_p p = sourceId r) \<and> (\<exists>q \<in> set fps. id_p q = targetId r)"
        unfolding in_ids_iff [symmetric] by metis
    next
      assume "(\<exists>p \<in> set fps. id_p p = sourceId r) \<and> (\<exists>q \<in> set fps. id_p q = targetId r)"
      then have "?vis r"
        unfolding in_ids_iff .
      with r show "toEdge r \<in> set (initialEdges rs fps)"
        by (simp add: initialEdges_map)
    qed
  qed
  have from_rel: "e \<in> set (initialEdges rs fps) \<longrightarrow>
        (\<exists>r' \<in> set rs. e = toEdge r'
           \<and> (\<exists>p \<in> set fps. id_p p = sourceId r') \<and> (\<exists>q \<in> set fps. id_p q = targetId r'))"
    unfolding initialEdges_map in_ids_iff by auto
  have view: "shownEdges st = initialEdges (relations st) (shownPersons st)"
    "shownPersons st
       = filteredPersons (persons st) (search st) (proximityFilter st) (categoryFilter st)"
    by (simp_all add: shownEdges_def shownPersons_def)
  have kept: "relations (setSearch v st) = relations st" "persons (setSearch v st) = persons st"
    "relations (setProximityFilter v st) = relations st"
    "persons (setProximityFilter v st) = persons st"
    "relations (onCheckedChange v b st) = relations st"
    "persons (onCheckedChange v b st) = persons st"
    by (simp_all add: setSearch_def setProximityFilter_def onCheckedChange_def)
  show ?thesis
    by (intro conjI ids shown from_rel toEdge_fields view kept)
qed

text \<open>With the proximity filter on fort only Marie is shown: the edge of the relation
  from Marie to Jean is not handed to the view, and the relation is still in the
  store; without a filter the one edge handed over goes from Marie to Jean.\<close>

theorem visible_relations_witness:
  "shownPersons filter_fort = [marie]
   \<and> relations filter_fort = [marie_jean]
   \<and> sourceId marie_jean = id_p marie \<and> targetId marie_jean = id_p jean
   \<and> toEdge marie_jean \<notin> set (shownEdges filter_fort)
   \<and> shownPersons idle = [marie, jean]
   \<and> toEdge marie_jean \<in> set (shownEdges idle)
   \<and> map edge_id (shownEdges idle) = [''rel-1'']
   \<and> map edge_source (shownEdges idle) = [''p-1'']
   \<and> map edge_target (shownEdges idle) = [''p-2'']
   \<and> map edge_id (shownEdges filter_fort) = []
   \<and> edge_label (toEdge marie_jean) = Own ''Moyen''
   \<and> \<not> edge_animated (toEdge marie_jean)"
proof -
  have a: "shownPersons filter_fort = [marie]"
    by code_simp
  have i: "shownPersons idle = [marie, jean]"
    by code_simp
  have b: "relations filter_fort = [marie_jean]" "relations idle = [marie_jean]"
    by (simp_all add: filter_fort_def idle_def setProximityFilter_def)
  have c: "sourceId marie_jean = id_p marie" "targetId marie_jean = id_p jean"
    "id_p marie \<noteq> id_p jean"
    by (simp_all add: marie_def marie_jean_def jean_def)
  have d: "id_r marie_jean = ''rel-1''" "sourceId marie_jean = ''p-1''" "targetId marie_jean = ''p-2''"
    "id_p marie = ''p-1''" "id_p jean = ''p-2''"
    by (simp_all add: marie_def marie_jean_def jean_def)
  note f = visible_relations [of "relations filter_fort" "shownPersons filter_fort" marie_jean _ filter_fort]
  note g = visible_relations [of "relations idle" "shownPersons idle" marie_jean _ idle]
  note sf = f [THEN conjunct2, THEN conjunct2, THEN conjunct2, THEN conjunct2, THEN conjunct2,
      THEN conjunct2, THEN conjunct2, THEN conjunct2, THEN conjunct2, THEN conjunct2,
      THEN conjunct2, THEN conjunct2, THEN conjunct1]
  note si = g [THEN conjunct2, THEN conjunct2, THEN conjunct2, THEN conjunct2, THEN conjunct2,
      THEN conjunct2, THEN conjunct2, THEN conjunct2, THEN conjunct2, THEN conjunct2,
      THEN conjunct2, THEN conjunct2, THEN conjunct1]
  note f4 = f [THEN conjunct2, THEN conjunct2, THEN conjunct2, THEN conjunct1, folded sf]
  note g4 = g [THEN conjunct2, THEN conjunct2, THEN conjunct2, THEN conjunct1, folded si]
  from f4 have nf: "toEdge marie_jean \<notin> set (shownEdges filter_fort)"
    by (simp add: a b c)
  from g4 have ni: "toEdge marie_jean \<in> set (shownEdges idle)"
    by (simp add: i b c)
  from g [THEN conjunct1, folded si] have e1: "map edge_id (shownEdges idle) = [''rel-1'']"
    by (simp add: i b d)
  from g [THEN conjunct2, THEN conjunct1, folded si]
  have e2: "map edge_source (shownEdges idle) = [''p-1'']"
    by (simp add: i b d)
  from g [THEN conjunct2, THEN conjunct2, THEN conjunct1, folded si]
  have e3: "map edge_target (shownEdges idle) = [''p-2'']"
    by (simp add: i b d)
  from f [THEN conjunct1, folded sf] have e4: "map edge_id (shownEdges filter_fort) = []"
    by (simp add: a b d)
  have l: "proximityLabel (proximity_r marie_jean) = Own ''Moyen''"
    "proximity_r marie_jean \<noteq> JStr ''fort''"
    by (simp_all add: marie_jean_def proximityLabel_def)
  from g have e5: "edge_label (toEdge marie_jean) = Own ''Moyen''"
    and e6: "\<not> edge_animated (toEdge marie_jean)"
    using l by simp_all
  show ?thesis
    by (intro conjI a i b(1) c(1,2) nf ni e1 e2 e3 e4 e5 e6)
qed


subsection \<open>Export followed by import\<close>

text \<open>Splitting undoes joining when no piece contains the separator.\<close>

lemma split_not_Nil: "split d s \<noteq> []"
  by (induction s) (auto split: list.splits)

lemma split_no_separator: "d \<notin> set c \<Longrightarrow> split d c = [c]"
  by (induction c) auto

lemma split_piece: "d \<notin> set c \<Longrightarrow> split d (c @ d # s) = c # split d s"
  by (induction c) auto

lemma split_join:
  "cs \<noteq> [] \<Longrightarrow> \<forall>c \<in> set cs. d \<notin> set c \<Longrightarrow> split d (join [d] cs) = cs"
  by (induction "[d]" cs rule: join.induct) (simp_all add: split_no_separator split_piece)

lemma join_Nil_iff: "sep \<noteq> [] \<Longrightarrow> join sep cs = [] \<longleftrightarrow> cs = [] \<or> cs = [[]]"
  by (induction sep cs rule: join.induct) auto

lemma categories_roundtrip:
  assumes "cs \<noteq> [[]]" and "\<forall>c \<in> set cs. CHR ''|'' \<notin> set c"
  shows "(case optString (Some (JStr (join ''|'' cs))) of None \<Rightarrow> [] | Some s \<Rightarrow> split (CHR ''|'') s) = cs"
proof (cases "cs = []")
  case True
  then show ?thesis by (simp add: optString_def)
next
  case False
  with assms(1) have "join ''|'' cs \<noteq> []"
    by (simp add: join_Nil_iff)
  with False assms(2) show ?thesis
    by (simp add: optString_def split_join)
qed

lemma optString_exported:
  "optString (Some (JStr (case v of None \<Rightarrow> [] | Some c \<Rightarrow> c))) = blank_to_absent v"
  by (cases v) (auto simp: optString_def blank_to_absent_def)

text \<open>The cells of an exported row, and what the import makes of such a row.\<close>

lemma personRow_cells:
  "personRow p ''id'' = Some (JStr (id_p p))"
  "personRow p ''firstName'' = Some (JStr (firstName p))"
  "personRow p ''lastName'' = Some (JStr (lastName p))"
  "personRow p ''company'' = Some (JStr (case company p of None \<Rightarrow> [] | Some c \<Rightarrow> c))"
  "personRow p ''comment'' = Some (JStr (case comment p of None \<Rightarrow> [] | Some c \<Rightarrow> c))"
  "personRow p ''proximity'' = Some (proximity_p p)"
  "personRow p ''categories''
     = Some (JStr (join ''|'' (case categories p of None \<Rightarrow> [] | Some cs \<Rightarrow> cs)))"
  "personRow p ''x'' = Some (case position p of None \<Rightarrow> JStr [] | Some q \<Rightarrow> JNum (pos_x q))"
  "personRow p ''y'' = Some (case position p of None \<Rightarrow> JStr [] | Some q \<Rightarrow> JNum (pos_y q))"
  by (simp_all add: personRow_def)

lemma relationRow_cells:
  "relationRow r ''id'' = Some (JStr (id_r r))"
  "relationRow r ''sourceId'' = Some (JStr (sourceId r))"
  "relationRow r ''targetId'' = Some (JStr (targetId r))"
  "relationRow r ''proximity'' = Some (proximity_r r)"
  by (simp_all add: relationRow_def)

lemma importedRelation_relationRow: "importedRelation rnd (relationRow r) = r"
  by (simp add: importedRelation_def relationRow_cells orElse_def)

lemma importedPerson_personRow:
  assumes "\<forall>cs. categories p = Some cs \<longrightarrow> cs \<noteq> [[]] \<and> (\<forall>c \<in> set cs. CHR ''|'' \<notin> set c)"
  shows "importedPerson rnd (personRow p) = reimported p"
proof -
  let ?cs = "case categories p of None \<Rightarrow> [] | Some cs \<Rightarrow> cs"
  have "?cs \<noteq> [[]] \<and> (\<forall>c \<in> set ?cs. CHR ''|'' \<notin> set c)"
    using assms by (cases "categories p") simp_all
  then have "?cs \<noteq> [[]]" and "\<forall>c \<in> set ?cs. CHR ''|'' \<notin> set c"
    by blast+
  then have cat: "(case optString (Some (JStr (join ''|'' ?cs))) of None \<Rightarrow> []
                    | Some s \<Rightarrow> split (CHR ''|'') s) = ?cs"
    by (rule categories_roundtrip)
  have pos: "(case (personRow p ''x'', personRow p ''y'') of
           (Some (JNum a), Some (JNum b)) \<Rightarrow> Some \<lparr>pos_x = a, pos_y = b\<rparr>
         | _ \<Rightarrow> None) = position p"
    by (cases "position p") (simp_all add: personRow_cells)
  show ?thesis
    unfolding importedPerson_def pos
    unfolding personRow_cells cat optString_exported
    by (simp add: reimported_def orElse_def)
qed

lemma map_enumerate_rows:
  assumes "\<And>r x. x \<in> set xs \<Longrightarrow> f r (g x) = h x"
  shows "map (\<lambda>(i, rw). f (rnd i) rw) (enumerate n (map g xs)) = map h xs"
  using assms by (induction xs arbitrary: n) simp_all

lemma exportExcel_sheets:
  "exportExcel st ''Persons'' = Some (map personRow (persons st))"
  "exportExcel st ''Relations'' = Some (map relationRow (relations st))"
  by (simp_all add: exportExcel_def)

lemma reimported_same:
  "company p \<noteq> Some [] \<Longrightarrow> comment p \<noteq> Some [] \<Longrightarrow> categories p \<noteq> None \<Longrightarrow> reimported p = p"
  by (auto simp: reimported_def blank_to_absent_def)

text \<open>The five categories of the program contain no separator and are not empty.\<close>

lemma allCategories_plain:
  "set cs \<subseteq> set allCategories \<Longrightarrow> cs \<noteq> [[]] \<and> (\<forall>c \<in> set cs. CHR ''|'' \<notin> set c)"
  by (auto simp: allCategories_def)

text \<open>
  C3 (amended). Let the document that is imported have, in its two sheets, the rows
  that the export handed to the spreadsheet library. Let no category of a person
  contain the separator \<^verbatim>\<open>|\<close>, and let no list of categories consist of the empty
  string alone, as is the case for the five categories of the program. Then the
  import, into whatever state, gives the same relations, in the same order, and the
  same persons, in the same order and with the categories in the same order, but for
  this: a company or comment that was the empty string is absent, and an absent list
  of categories is the empty list. When no person has an empty company or comment or
  lacks the categories field, the persons are the same. Whether the library gives the
  rows back as they were written is outside the program and not part of the
  statement.
\<close>

theorem export_import:
  assumes "wb ''Persons'' = exportExcel st ''Persons''"
    and "wb ''Relations'' = exportExcel st ''Relations''"
    and "\<forall>p \<in> set (persons st). \<forall>cs. categories p = Some cs \<longrightarrow>
             cs \<noteq> [[]] \<and> (\<forall>c \<in> set cs. CHR ''|'' \<notin> set c)"
  shows "relations (importExcel rnd wb st') = relations st
       \<and> persons (importExcel rnd wb st') = map reimported (persons st)
       \<and> length (persons (importExcel rnd wb st')) = length (persons st)
       \<and> ((\<forall>p \<in> set (persons st).
              company p \<noteq> Some [] \<and> comment p \<noteq> Some [] \<and> categories p \<noteq> None)
            \<longrightarrow> persons (importExcel rnd wb st') = persons st)"
proof -
  have r: "map (\<lambda>(i, rw). importedRelation (rnd i) rw)
             (enumerate n (map relationRow (relations st))) = map (\<lambda>r. r) (relations st)" for n
    by (rule map_enumerate_rows) (rule importedRelation_relationRow)
  have p: "map (\<lambda>(i, rw). importedPerson (rnd i) rw)
             (enumerate 0 (map personRow (persons st))) = map reimported (persons st)"
    by (rule map_enumerate_rows) (rule importedPerson_personRow, use assms(3) in blast)
  have rel: "relations (importExcel rnd wb st') = relations st"
    unfolding importExcel_def assms(1,2) exportExcel_sheets by (simp add: notify_fields r Let_def)
  have per: "persons (importExcel rnd wb st') = map reimported (persons st)"
    unfolding importExcel_def assms(1,2) exportExcel_sheets by (simp add: notify_fields p Let_def)
  have same: "(\<forall>p \<in> set (persons st).
              company p \<noteq> Some [] \<and> comment p \<noteq> Some [] \<and> categories p \<noteq> None)
            \<longrightarrow> persons (importExcel rnd wb st') = persons st"
    unfolding per by (auto simp: reimported_same intro: map_idI)
  from rel per same show ?thesis by simp
qed

text \<open>Importing the rows exported from the example store into another store gives
  Marie, Jean and their relation again.\<close>

theorem export_import_witness:
  "persons idle = [marie, jean]
   \<and> categories marie = Some [] \<and> categories jean = Some [''Partenaire'', ''Advisor'']
   \<and> company marie = Some ''Acme Corp'' \<and> comment marie = None
   \<and> company jean = None \<and> comment jean = None
   \<and> persons (importExcel (\<lambda>i. ''k3x9q2a'') (exportExcel idle) with_paul) = [marie, jean]
   \<and> relations (importExcel (\<lambda>i. ''k3x9q2a'') (exportExcel idle) with_paul) = [marie_jean]"
proof -
  have a: "\<forall>p \<in> set (persons idle). \<forall>cs. categories p = Some cs \<longrightarrow>
             cs \<noteq> [[]] \<and> (\<forall>c \<in> set cs. CHR ''|'' \<notin> set c)"
    by (auto simp: idle_def marie_def jean_def)
  have b: "\<forall>p \<in> set (persons idle).
              company p \<noteq> Some [] \<and> comment p \<noteq> Some [] \<and> categories p \<noteq> None"
    by (simp add: idle_def marie_def jean_def)
  have c: "persons idle = [marie, jean]" "relations idle = [marie_jean]"
    by (simp_all add: idle_def)
  have d: "categories marie = Some []" "categories jean = Some [''Partenaire'', ''Advisor'']"
    "company marie = Some ''Acme Corp''" "comment marie = None"
    "company jean = None" "comment jean = None"
    by (simp_all add: marie_def jean_def)
  from export_import [OF refl refl a, of "\<lambda>i. ''k3x9q2a''" with_paul] b
  have "relations (importExcel (\<lambda>i. ''k3x9q2a'') (exportExcel idle) with_paul) = relations idle"
    and "persons (importExcel (\<lambda>i. ''k3x9q2a'') (exportExcel idle) with_paul) = persons idle"
    by blast+
  with c d show ?thesis by simp
qed

text \<open>C3 as stated fails for a person whose company is the empty string, which is how
  the form stores a company left blank: when the rows exported are imported, the
  company is absent.\<close>

theorem export_import_counterexample:
  "map company (persons with_paul) = [Some []]
   \<and> map company (persons (importExcel (\<lambda>i. ''k3x9q2a'') (exportExcel with_paul) with_paul)) = [None]
   \<and> persons (importExcel (\<lambda>i. ''k3x9q2a'') (exportExcel with_paul) with_paul) \<noteq> persons with_paul"
  by code_simp


end
